theory Spec2Isabelle
  imports Complex_Main "HOL-Library.Multiset"
begin

section \<open>Data model (package model)\<close>

text \<open>
  A \<open>uuid.UUID\<close> is modelled by a natural number; \<open>uuid.Nil\<close> is 0. A Go \<open>float32\<close> is
  modelled by the real number it denotes: rounding, overflow to infinity and NaN are not
  modelled. The development therefore speaks about the structure of the search (which
  entries are kept, in which order, paired with which distance); where a theorem names the
  value of a distance, the value is one that \<open>float32\<close> arithmetic computes exactly (0, 1, 50,
  \<open>MaxFloat32\<close>). No theorem states the Euclidean formula for arbitrary vectors. The time
  stamps \<open>CreatedAt\<close> and \<open>UpdatedAt\<close> play no part in any operation and are left out.
\<close>

type_synonym uuid = nat
type_synonym float32 = real

record Image =
  ID :: uuid
  FileName :: string
  FilePath :: string
  Extension :: string
  Width :: int
  Height :: int
  Size :: int

text \<open>
  \<open>TempEmbedding\<close> is the row type of table \<open>image_embeddings\<close> as the repository reads and
  writes it: the vector is a JSON blob (\<open>[]byte\<close>). \<open>ImageEmbedding\<close> is the parsed form.
\<close>

record TempEmbedding =
  temp_ID :: uuid
  temp_ImageID :: uuid
  temp_Embedding :: string

record ImageEmbedding =
  ImageID :: uuid
  Embedding :: "float32 list"

text \<open>
  The database: both tables, each in row order. Every returned error and every panic of the
  operations below is a value of \<open>error\<close>; a result is \<open>Inl\<close> of an error or \<open>Inr\<close> of the
  value returned.
\<close>

record database =
  images :: "Image list"
  image_embeddings :: "TempEmbedding list"

datatype error =
    DBError
  | RecordNotFound
  | NilPointerDereference
  | SliceBoundsOutOfRange
  | ReadError
  | SeekError
  | DecodeError
  | UnsupportedFormat
  | CreateFileError
  | EncodeError
  | MarshalError
  | StatError
  | RemoveError

section \<open>Similarity search (repository, SearchSimilarImages)\<close>

definition MaxFloat32 :: float32 where
  "MaxFloat32 = 340282346638528859811704183484516925440"

text \<open>\<open>calculateEuclideanDistance\<close>: the loop \<open>for i := range v1\<close> adds the squared differences.\<close>

definition calculateEuclideanDistance :: "float32 list \<Rightarrow> float32 list \<Rightarrow> float32" where
  "calculateEuclideanDistance v1 v2 =
     (if length v1 \<noteq> length v2 then MaxFloat32
      else sqrt (foldl (\<lambda>sum i. sum + (v1 ! i - v2 ! i) * (v1 ! i - v2 ! i)) 0 [0..<length v1]))"

record imageDistance =
  imageID :: uuid
  distance :: float32

text \<open>
  First loop of \<open>SearchSimilarImages\<close>: \<open>embeddings\<close> is allocated with one slot per row, and
  a row whose blob \<open>json.Unmarshal\<close> rejects leaves its slot \<open>nil\<close> (\<open>continue\<close>). The parser
  is a parameter: \<open>None\<close> is a parse error.
\<close>

definition parse_embeddings ::
  "(string \<Rightarrow> float32 list option) \<Rightarrow> TempEmbedding list \<Rightarrow> ImageEmbedding option list" where
  "parse_embeddings json_Unmarshal tempEmbeddings =
     map (\<lambda>temp. case json_Unmarshal (temp_Embedding temp) of
                   None \<Rightarrow> None
                 | Some embeddingData \<Rightarrow>
                     Some \<lparr>ImageID = temp_ImageID temp, Embedding = embeddingData\<rparr>)
         tempEmbeddings"

text \<open>
  Second loop: \<open>emb.Embedding\<close> and \<open>emb.ImageID\<close> dereference the slot, so a \<open>nil\<close> slot
  panics and the whole call is lost.
\<close>

fun compute_distances :: "float32 list \<Rightarrow> ImageEmbedding option list \<Rightarrow> error + imageDistance list" where
  "compute_distances targetEmbedding [] = Inr []"
| "compute_distances targetEmbedding (None # embeddings) = Inl NilPointerDereference"
| "compute_distances targetEmbedding (Some emb # embeddings) =
     (case compute_distances targetEmbedding embeddings of
        Inl e \<Rightarrow> Inl e
      | Inr distances \<Rightarrow>
          Inr (\<lparr>imageID = ImageID emb,
                distance = calculateEuclideanDistance targetEmbedding (Embedding emb)\<rparr> # distances))"

text \<open>
  \<open>sort.Slice\<close> is the Go library's sort. Its contract: the slice is permuted so that no
  element is less (by the function \<open>lessf\<close> given) than an element before it; it is
  documented as not stable. The model is that contract, a relation between the slice
  before and after.
\<close>

definition sort_Slice :: "('a \<Rightarrow> 'a \<Rightarrow> bool) \<Rightarrow> 'a list \<Rightarrow> 'a list \<Rightarrow> bool" where
  "sort_Slice lessf xs ys \<longleftrightarrow> mset ys = mset xs \<and> sorted_wrt (\<lambda>a b. \<not> lessf b a) ys"

definition less_distance :: "imageDistance \<Rightarrow> imageDistance \<Rightarrow> bool" where
  "less_distance a b \<longleftrightarrow> distance a < distance b"

text \<open>\<open>if len(distances) > limit { distances = distances[:limit] }\<close>: a negative bound panics.\<close>

definition truncate_distances :: "int \<Rightarrow> imageDistance list \<Rightarrow> error + imageDistance list" where
  "truncate_distances limit distances =
     (if int (length distances) > limit
      then (if limit < 0 then Inl SliceBoundsOutOfRange else Inr (take (nat limit) distances))
      else Inr distances)"

text \<open>
  \<open>DB.First(&image, "id = ?", id)\<close>: the row with that primary key, or an error. The
  lookup can also fail for a reason of the database's; \<open>first_err k\<close> says that the \<open>k\<close>-th
  lookup of the join does.
\<close>

definition db_First :: "Image list \<Rightarrow> uuid \<Rightarrow> Image option" where
  "db_First imgs i = find (\<lambda>img. ID img = i) imgs"

fun join_images ::
  "(nat \<Rightarrow> bool) \<Rightarrow> Image list \<Rightarrow> nat \<Rightarrow> imageDistance list \<Rightarrow> Image list \<times> float32 list" where
  "join_images first_err imgs k [] = ([], [])"
| "join_images first_err imgs k (d # ds) =
     (let (found, resultDistances) = join_images first_err imgs (Suc k) ds
      in case (if first_err k then None else db_First imgs (imageID d)) of
           None \<Rightarrow> (found, resultDistances)
         | Some img \<Rightarrow> (img # found, distance d # resultDistances))"

text \<open>
  \<open>SearchSimilarImages json_Unmarshal db find_err first_err targetEmbedding limit out\<close>: the
  call can end with \<open>out\<close>. \<open>Inl\<close> is the returned error or the panic, \<open>Inr\<close> the two slices.
  \<open>find_err\<close> says that the scan of table \<open>image_embeddings\<close> fails.
\<close>

definition SearchSimilarImages ::
  "(string \<Rightarrow> float32 list option) \<Rightarrow> database \<Rightarrow> bool \<Rightarrow> (nat \<Rightarrow> bool) \<Rightarrow>
   float32 list \<Rightarrow> int \<Rightarrow> (error + Image list \<times> float32 list) \<Rightarrow> bool" where
  "SearchSimilarImages json_Unmarshal db find_err first_err targetEmbedding limit out \<longleftrightarrow>
     (if find_err then out = Inl DBError
      else case compute_distances targetEmbedding
                  (parse_embeddings json_Unmarshal (image_embeddings db)) of
             Inl e \<Rightarrow> out = Inl e
           | Inr distances \<Rightarrow>
               (\<exists>sorted_distances.
                  sort_Slice less_distance distances sorted_distances \<and>
                  out = (case truncate_distances limit sorted_distances of
                           Inl e \<Rightarrow> Inl e
                         | Inr kept \<Rightarrow> Inr (join_images first_err (images db) 0 kept))))"

section \<open>Paging (ListImages)\<close>

text \<open>
  \<open>page\<close> and \<open>pageSize\<close> are Go \<open>int\<close>, 64 bits wide on the usual platforms: they are
  integers here, and \<open>int64\<close> is the wrap-around of an arithmetic result.
\<close>

definition int64 :: "int \<Rightarrow> int" where
  "int64 x = (x + 2 ^ 63) mod 2 ^ 64 - 2 ^ 63"

text \<open>
  \<open>DB.Offset(offset).Limit(limit).Find(&rows)\<close>: the query builder writes an \<open>OFFSET\<close> only
  for a positive offset and a \<open>LIMIT\<close> only for a limit that is not negative. The service
  passes a limit between 1 and 100.
\<close>

definition db_Offset_Limit :: "int \<Rightarrow> int \<Rightarrow> 'a list \<Rightarrow> 'a list" where
  "db_Offset_Limit offset limit rows =
     (let skipped = (if offset > 0 then drop (nat offset) rows else rows)
      in if limit \<ge> 0 then take (nat limit) skipped else skipped)"

text \<open>
  Repository \<open>ListImages\<close>. The error of \<open>Count\<close> is not looked at: when the count fails
  (\<open>count_err\<close>), \<open>total\<close> keeps its zero value. \<open>find_err\<close> says that the page query fails.
\<close>

definition repository_ListImages ::
  "database \<Rightarrow> bool \<Rightarrow> bool \<Rightarrow> int \<Rightarrow> int \<Rightarrow> error + Image list \<times> int" where
  "repository_ListImages db count_err find_err page pageSize =
     (let total = (if count_err then 0 else int (length (images db)));
          offset = int64 (int64 (page - 1) * pageSize)
      in if find_err then Inl DBError
         else Inr (db_Offset_Limit offset pageSize (images db), total))"

text \<open>Service \<open>ListImages\<close>: the two guards, the repository call, the copy of the rows.\<close>

definition service_ListImages ::
  "database \<Rightarrow> bool \<Rightarrow> bool \<Rightarrow> int \<Rightarrow> int \<Rightarrow> error + Image list \<times> int" where
  "service_ListImages db count_err find_err page pageSize =
     (let page1 = (if page < 1 then 1 else page);
          pageSize1 = (if pageSize < 1 \<or> pageSize > 100 then 10 else pageSize)
      in case repository_ListImages db count_err find_err page1 pageSize1 of
           Inl e \<Rightarrow> Inl e
         | Inr (imagePtrs, tot) \<Rightarrow> Inr (imagePtrs, tot))"

section \<open>Files, fetch and delete\<close>

text \<open>
  The service works on the database and on the files of the image directory: \<open>disk\<close> maps a
  path to the content of the file there. \<open>faults\<close> says which calls to the file system and
  to the database fail for a reason of their own (a full disk, a lost connection).
\<close>

type_synonym bytes = string
type_synonym filesystem = "string \<Rightarrow> bytes option"

record world =
  repo :: database
  disk :: filesystem

record faults =
  fail_read :: bool
  fail_seek :: bool
  fail_create_file :: bool
  fail_stat :: bool
  fail_create_image :: bool
  fail_create_embedding :: bool
  fail_get :: bool
  fail_remove :: bool
  fail_delete_embedding :: bool
  fail_delete_image :: bool
  fail_commit :: bool

text \<open>\<open>os.Remove\<close> fails on a path with no file, and when the file system refuses.\<close>

definition os_Remove :: "bool \<Rightarrow> filesystem \<Rightarrow> string \<Rightarrow> (error + unit) \<times> filesystem" where
  "os_Remove io_err fs name =
     (if io_err \<or> fs name = None then (Inl RemoveError, fs) else (Inr (), fs(name := None)))"

text \<open>Repository \<open>GetImageByID\<close>: \<open>First\<close> by primary key.\<close>

definition repository_GetImageByID :: "bool \<Rightarrow> database \<Rightarrow> uuid \<Rightarrow> error + Image" where
  "repository_GetImageByID first_err db i =
     (if first_err then Inl DBError
      else case db_First (images db) i of None \<Rightarrow> Inl RecordNotFound | Some img \<Rightarrow> Inr img)"

text \<open>
  \<open>DB.Transaction(fc)\<close>: \<open>fc\<close> runs on the transaction; when it returns an error, or the
  commit fails, the database is as before.
\<close>

definition Transaction ::
  "bool \<Rightarrow> (database \<Rightarrow> error + database) \<Rightarrow> database \<Rightarrow> (error + unit) \<times> database" where
  "Transaction commit_err fc db =
     (case fc db of
        Inl e \<Rightarrow> (Inl e, db)
      | Inr tx \<Rightarrow> if commit_err then (Inl DBError, db) else (Inr (), tx))"

text \<open>
  Repository \<open>DeleteImage\<close>: inside one transaction, delete the embedding rows of the image,
  then the image row. A delete that matches no row is not an error.
\<close>

definition repository_DeleteImage ::
  "faults \<Rightarrow> database \<Rightarrow> uuid \<Rightarrow> (error + unit) \<times> database" where
  "repository_DeleteImage f db i =
     Transaction (fail_commit f)
       (\<lambda>tx. if fail_delete_embedding f then Inl DBError
             else let tx1 = tx\<lparr>image_embeddings :=
                                 filter (\<lambda>e. temp_ImageID e \<noteq> i) (image_embeddings tx)\<rparr>
                  in if fail_delete_image f then Inl DBError
                     else Inr (tx1\<lparr>images := filter (\<lambda>img. ID img \<noteq> i) (images tx1)\<rparr>))
       db"

text \<open>
  Service \<open>GetImage\<close> and \<open>DeleteImage\<close>. The delete fetches the record, removes the file,
  then deletes the records; each step that fails returns at once.
\<close>

definition service_GetImage :: "faults \<Rightarrow> world \<Rightarrow> uuid \<Rightarrow> error + Image" where
  "service_GetImage f w i = repository_GetImageByID (fail_get f) (repo w) i"

definition service_DeleteImage :: "faults \<Rightarrow> world \<Rightarrow> uuid \<Rightarrow> (error + unit) \<times> world" where
  "service_DeleteImage f w i =
     (case repository_GetImageByID (fail_get f) (repo w) i of
        Inl e \<Rightarrow> (Inl e, w)
      | Inr img \<Rightarrow>
          (case os_Remove (fail_remove f) (disk w) (FilePath img) of
             (Inl e, fs) \<Rightarrow> (Inl e, w\<lparr>disk := fs\<rparr>)
           | (Inr u, fs) \<Rightarrow>
               (case repository_DeleteImage f (repo w) i of
                  (Inl e, db) \<Rightarrow> (Inl e, \<lparr>repo = db, disk = fs\<rparr>)
                | (Inr u, db) \<Rightarrow> (Inr (), \<lparr>repo = db, disk = fs\<rparr>))))"

section \<open>Ingestion (UploadImage)\<close>

text \<open>
  The library functions that the upload calls are parameters, over any type \<open>'img\<close> of
  decoded images: \<open>image.Decode\<close> (the image and its format name, or an error),
  \<open>resize.Resize(800, 0, img, resize.Lanczos3)\<close>, the width and height of \<open>Bounds()\<close>, the two
  encoders (the bytes that reached the file, and whether the encoder succeeded),
  \<open>json.Marshal\<close> and \<open>UUID.String\<close>. \<open>generateEmbedding\<close> is the service's own function; it
  reads the pixels through the image library and averages them in \<open>float32\<close>, and is a
  parameter as well: no property below depends on the vector it returns.
\<close>

record 'img library =
  image_Decode :: "bytes \<Rightarrow> ('img \<times> string) option"
  resize_Resize :: "'img \<Rightarrow> 'img"
  Dx :: "'img \<Rightarrow> int"
  Dy :: "'img \<Rightarrow> int"
  jpeg_Encode :: "'img \<Rightarrow> bytes \<times> bool"
  png_Encode :: "'img \<Rightarrow> bytes \<times> bool"
  generateEmbedding :: "'img \<Rightarrow> float32 list"
  json_Marshal :: "float32 list \<Rightarrow> bytes option"
  uuid_String :: "uuid \<Rightarrow> string"

text \<open>
  Repository \<open>CreateImage\<close>: the hook \<open>BeforeCreate\<close> gives a record without identity a new
  UUID (\<open>new_uuid\<close> is what \<open>uuid.New()\<close> returns); the insert fails when the database does
  (\<open>create_err\<close>) or when the primary key is taken.
\<close>

definition repository_CreateImage ::
  "bool \<Rightarrow> uuid \<Rightarrow> database \<Rightarrow> Image \<Rightarrow> (error + Image) \<times> database" where
  "repository_CreateImage create_err new_uuid db img =
     (let img1 = (if ID img = 0 then img\<lparr>ID := new_uuid\<rparr> else img)
      in if create_err \<or> (\<exists>row\<in>set (images db). ID row = ID img1) then (Inl DBError, db)
         else (Inr img1, db\<lparr>images := images db @ [img1]\<rparr>))"

text \<open>
  Repository \<open>CreateImageEmbedding\<close>: the vector is marshalled to JSON and the row is written
  with the identity the caller's struct holds (the upload leaves it \<open>uuid.Nil\<close>).
\<close>

definition repository_CreateImageEmbedding ::
  "(float32 list \<Rightarrow> bytes option) \<Rightarrow> bool \<Rightarrow> database \<Rightarrow> uuid \<Rightarrow> uuid \<Rightarrow> float32 list \<Rightarrow>
   (error + unit) \<times> database" where
  "repository_CreateImageEmbedding marshal create_err db embedding_ID embedding_ImageID vec =
     (case marshal vec of
        None \<Rightarrow> (Inl MarshalError, db)
      | Some embeddingJSON \<Rightarrow>
          if create_err then (Inl DBError, db)
          else (Inr (),
                db\<lparr>image_embeddings := image_embeddings db @
                      [\<lparr>temp_ID = embedding_ID, temp_ImageID = embedding_ImageID,
                        temp_Embedding = embeddingJSON\<rparr>]\<rparr>))"

text \<open>The \<open>switch extension\<close> of the upload: no case matches any other extension.\<close>

definition encode_image :: "'img library \<Rightarrow> string \<Rightarrow> 'img \<Rightarrow> bytes \<times> bool" where
  "encode_image c extension resizedImg =
     (if extension = ''jpg'' \<or> extension = ''jpeg'' then jpeg_Encode c resizedImg
      else if extension = ''png'' then png_Encode c resizedImg
      else ([], True))"

text \<open>
  The last part of \<open>UploadImage\<close>, from \<open>CreateImage\<close> on: the two inserts, each with its
  clean-up. The errors of \<open>os.Remove\<close> and of \<open>DeleteImage\<close> in the clean-up are dropped.
\<close>

definition persist_upload ::
  "'img library \<Rightarrow> faults \<Rightarrow> uuid \<Rightarrow> database \<Rightarrow> filesystem \<Rightarrow> string \<Rightarrow> Image \<Rightarrow> 'img \<Rightarrow>
   (error + Image) \<times> world" where
  "persist_upload c f image_uuid db0 fs filePath record resizedImg =
     (case repository_CreateImage (fail_create_image f) image_uuid db0 record of
        (Inl e, db) \<Rightarrow>
          (Inl e, \<lparr>repo = db, disk = snd (os_Remove (fail_remove f) fs filePath)\<rparr>)
      | (Inr created, db) \<Rightarrow>
          (case repository_CreateImageEmbedding (json_Marshal c) (fail_create_embedding f) db 0
                  (ID created) (generateEmbedding c resizedImg) of
             (Inl e, db1) \<Rightarrow>
               (Inl e, \<lparr>repo = snd (repository_DeleteImage f db1 (ID created)),
                        disk = snd (os_Remove (fail_remove f) fs filePath)\<rparr>)
           | (Inr u, db1) \<Rightarrow> (Inr created, \<lparr>repo = db1, disk = fs\<rparr>)))"

text \<open>
  \<open>UploadImage\<close>. \<open>file\<close> is the content of the upload, \<open>file_uuid\<close> and \<open>image_uuid\<close> are
  the results of the two calls of \<open>uuid.New()\<close>. After the format check the format is
  \<open>jpeg\<close> or \<open>png\<close>, which \<open>strings.ToLower\<close> leaves as it is. \<open>os.Create\<close> makes the
  file (empty) before the encoder runs; the size is taken from the file after encoding.
\<close>

definition service_UploadImage ::
  "'img library \<Rightarrow> faults \<Rightarrow> string \<Rightarrow> uuid \<Rightarrow> uuid \<Rightarrow> world \<Rightarrow> bytes \<Rightarrow> string \<Rightarrow>
   (error + Image) \<times> world" where
  "service_UploadImage c f imageDir file_uuid image_uuid w file header_Filename =
     (if fail_read f then (Inl ReadError, w)
      else if fail_seek f then (Inl SeekError, w)
      else case image_Decode c file of
        None \<Rightarrow> (Inl DecodeError, w)
      | Some (img, format) \<Rightarrow>
          if format \<noteq> ''jpeg'' \<and> format \<noteq> ''png'' then (Inl UnsupportedFormat, w)
          else
            let extension = format;
                fileName = uuid_String c file_uuid @ ''.'' @ extension;
                filePath = imageDir @ ''/'' @ fileName
            in if fail_create_file f then (Inl CreateFileError, w)
               else
                 let resizedImg = resize_Resize c img;
                     (written, encoded) = encode_image c extension resizedImg;
                     fs = (disk w)(filePath \<mapsto> written)
                 in if \<not> encoded then (Inl EncodeError, w\<lparr>disk := fs\<rparr>)
                    else if fail_stat f then (Inl StatError, w\<lparr>disk := fs\<rparr>)
                    else persist_upload c f image_uuid (repo w) fs filePath
                           \<lparr>ID = 0, FileName = header_Filename, FilePath = filePath,
                             Extension = extension, Width = Dx c resizedImg,
                             Height = Dy c resizedImg, Size = int (length written)\<rparr>
                           resizedImg)"

section \<open>Example data\<close>

text \<open>
  Concrete inputs for the closed theorems below. \<open>json_example\<close> stands for \<open>json.Unmarshal\<close>
  on the blobs that occur in them; every other blob is a parse error.
\<close>

definition json_example :: "string \<Rightarrow> float32 list option" where
  "json_example blob =
     (if blob = ''[0,0,0]'' then Some [0, 0, 0]
      else if blob = ''[1,0,0]'' then Some [1, 0, 0]
      else if blob = ''[10,10,10]'' then Some [10, 10, 10]
      else if blob = ''[1,2,3]'' then Some [1, 2, 3]
      else if blob = ''[0.5]'' then Some [1 / 2]
      else None)"

text \<open>No lookup of the join fails.\<close>

definition no_err :: "nat \<Rightarrow> bool" where
  "no_err k = False"

text \<open>The images A, B and C and the collection of the ordering example.\<close>

definition img_a :: Image where
  "img_a = \<lparr>ID = 11, FileName = ''a.png'', FilePath = ''images/a1.png'', Extension = ''png'',
            Width = 800, Height = 600, Size = 1000\<rparr>"

definition img_b :: Image where
  "img_b = \<lparr>ID = 12, FileName = ''b.png'', FilePath = ''images/b2.png'', Extension = ''png'',
            Width = 800, Height = 400, Size = 2000\<rparr>"

definition img_c :: Image where
  "img_c = \<lparr>ID = 13, FileName = ''c.jpg'', FilePath = ''images/c3.jpeg'', Extension = ''jpeg'',
            Width = 800, Height = 800, Size = 3000\<rparr>"

definition db_abc :: database where
  "db_abc = \<lparr>images = [img_a, img_b, img_c],
             image_embeddings =
               [\<lparr>temp_ID = 21, temp_ImageID = 11, temp_Embedding = ''[0,0,0]''\<rparr>,
                \<lparr>temp_ID = 22, temp_ImageID = 12, temp_Embedding = ''[1,0,0]''\<rparr>,
                \<lparr>temp_ID = 23, temp_ImageID = 13, temp_Embedding = ''[10,10,10]''\<rparr>]\<rparr>"


text \<open>
  One stored vector of length 3; one stored vector of length 1; a row with a truncated
  blob; two rows with the same vector; no row at all.
\<close>

definition db_mismatch :: database where
  "db_mismatch = \<lparr>images = [img_a],
                  image_embeddings = [\<lparr>temp_ID = 21, temp_ImageID = 11, temp_Embedding = ''[1,2,3]''\<rparr>]\<rparr>"


definition db_corrupt :: database where
  "db_corrupt = \<lparr>images = [img_a, img_b],
                 image_embeddings =
                   [\<lparr>temp_ID = 21, temp_ImageID = 11, temp_Embedding = ''[0,0,0]''\<rparr>,
                    \<lparr>temp_ID = 22, temp_ImageID = 12, temp_Embedding = ''[1,0''\<rparr>]\<rparr>"

definition db_ties :: database where
  "db_ties = \<lparr>images = [img_a, img_b],
              image_embeddings =
                [\<lparr>temp_ID = 21, temp_ImageID = 11, temp_Embedding = ''[1,0,0]''\<rparr>,
                 \<lparr>temp_ID = 22, temp_ImageID = 12, temp_Embedding = ''[1,0,0]''\<rparr>]\<rparr>"


text \<open>Twelve images, for paging.\<close>

definition numbered_image :: "nat \<Rightarrow> Image" where
  "numbered_image n = \<lparr>ID = n, FileName = ''n.png'', FilePath = ''images/n.png'',
                       Extension = ''png'', Width = 800, Height = 600, Size = 1000\<rparr>"

definition db_twelve :: database where
  "db_twelve = \<lparr>images = map numbered_image [1, 2, 3, 4, 5, 6, 7, 8, 9, 10, 11, 12],
                image_embeddings = []\<rparr>"

text \<open>
  Thirteen images with one-component vectors; the rows of image 1 and image 2, stored first,
  hold the same vector. \<open>json_levels\<close> parses the blobs of these rows.
\<close>

definition json_levels :: "string \<Rightarrow> float32 list option" where
  "json_levels blob =
     (if blob = ''[10]'' then Some [10] else if blob = ''[20]'' then Some [20]
      else if blob = ''[30]'' then Some [30] else if blob = ''[40]'' then Some [40]
      else if blob = ''[45]'' then Some [45] else if blob = ''[50]'' then Some [50]
      else if blob = ''[60]'' then Some [60] else if blob = ''[70]'' then Some [70]
      else if blob = ''[80]'' then Some [80] else if blob = ''[90]'' then Some [90]
      else if blob = ''[100]'' then Some [100] else if blob = ''[110]'' then Some [110]
      else None)"

definition level_row :: "nat \<Rightarrow> string \<Rightarrow> TempEmbedding" where
  "level_row n blob = \<lparr>temp_ID = 100 + n, temp_ImageID = n, temp_Embedding = blob\<rparr>"

definition db_thirteen :: database where
  "db_thirteen =
     \<lparr>images = map numbered_image [1, 2, 3, 4, 5, 6, 7, 8, 9, 10, 11, 12, 13],
      image_embeddings =
        [level_row 1 ''[50]'', level_row 2 ''[50]'', level_row 3 ''[10]'', level_row 4 ''[20]'',
         level_row 5 ''[30]'', level_row 6 ''[40]'', level_row 7 ''[45]'', level_row 8 ''[60]'',
         level_row 9 ''[70]'', level_row 10 ''[80]'', level_row 11 ''[90]'',
         level_row 12 ''[100]'', level_row 13 ''[110]'']\<rparr>"

text \<open>
  A world with one image and its file, and library functions on images that are only a
  width and a height: the JPEG encoder rejects a height of 65536 or more, as \<open>jpeg.Encode\<close>
  does.
\<close>

definition no_faults :: faults where
  "no_faults = \<lparr>fail_read = False, fail_seek = False, fail_create_file = False,
                fail_stat = False, fail_create_image = False, fail_create_embedding = False,
                fail_get = False, fail_remove = False, fail_delete_embedding = False,
                fail_delete_image = False, fail_commit = False\<rparr>"

definition world_a :: world where
  "world_a = \<lparr>repo = db_mismatch,
              disk = (\<lambda>name. if name = ''images/a1.png'' then Some ''PNGDATA'' else None)\<rparr>"

definition library_example :: "(int \<times> int) library" where
  "library_example =
     \<lparr>image_Decode = (\<lambda>file. if file = ''PNG 1600x1200'' then Some ((1600, 1200), ''png'')
                             else if file = ''JPEG 8x700'' then Some ((8, 700), ''jpeg'')
                             else None),
      resize_Resize = (\<lambda>(w, h). (800, h * 800 div w)),
      Dx = fst,
      Dy = snd,
      jpeg_Encode = (\<lambda>(w, h). if 65536 \<le> h then ([], False) else (''JPEGBYTES'', True)),
      png_Encode = (\<lambda>(w, h). (''PNGBYTES'', True)),
      generateEmbedding = (\<lambda>img. [0, 0, 0]),
      json_Marshal = (\<lambda>v. Some ''[0,0,0]''),
      uuid_String = (\<lambda>u. if u = 7 then ''u7'' else ''u'')\<rparr>"

definition uploaded_example :: Image where
  "uploaded_example = \<lparr>ID = 42, FileName = ''photo.png'', FilePath = ''images/u7.png'',
                        Extension = ''png'', Width = 800, Height = 600, Size = 8\<rparr>"

section \<open>Properties of the search\<close>

lemma compute_distances_nil:
  "None \<in> set embs \<Longrightarrow> compute_distances t embs = Inl NilPointerDereference"
  by (induction t embs rule: compute_distances.induct) (auto split: sum.splits)

lemma join_images_Cons:
  "join_images f imgs k (d # ds) =
     (case (if f k then None else db_First imgs (imageID d)) of
        None \<Rightarrow> join_images f imgs (Suc k) ds
      | Some img \<Rightarrow> (img # fst (join_images f imgs (Suc k) ds),
                      distance d # snd (join_images f imgs (Suc k) ds)))"
  by (simp split: prod.splits option.splits)

lemma join_images_length:
  "length (fst (join_images f imgs k ds)) = length (snd (join_images f imgs k ds))"
  by (induction ds arbitrary: k) (auto simp: join_images_Cons simp del: join_images.simps(2) split: option.splits)

lemma db_First_ID: "db_First imgs i = Some img \<Longrightarrow> ID img = i \<and> img \<in> set imgs"
  by (auto simp: db_First_def find_Some_iff)

lemma join_images_paired:
  "list_all2 (\<lambda>img r. \<exists>d\<in>set ds. ID img = imageID d \<and> img \<in> set imgs \<and> r = distance d)
     (fst (join_images f imgs k ds)) (snd (join_images f imgs k ds))"
proof (induction ds arbitrary: k)
  case Nil
  then show ?case by simp
next
  case (Cons d ds)
  have mono: "list_all2 (\<lambda>img r. \<exists>x\<in>set (d # ds). ID img = imageID x \<and> img \<in> set imgs \<and> r = distance x)
     (fst (join_images f imgs (Suc k) ds)) (snd (join_images f imgs (Suc k) ds))"
    by (rule list_all2_mono [OF Cons.IH [of "Suc k"]]) auto
  show ?case
    using mono by (auto simp: join_images_Cons simp del: join_images.simps(2) split: option.splits dest: db_First_ID)
qed

lemma join_images_distances_subset:
  "set (snd (join_images f imgs k ds)) \<subseteq> distance ` set ds"
  by (induction ds arbitrary: k)
    (auto simp: join_images_Cons simp del: join_images.simps(2) split: option.splits)

lemma join_images_sorted:
  "sorted_wrt (\<lambda>a b. distance a \<le> distance b) ds \<Longrightarrow> sorted (snd (join_images f imgs k ds))"
proof (induction ds arbitrary: k)
  case Nil
  then show ?case by simp
next
  case (Cons d ds)
  have sub: "set (snd (join_images f imgs (Suc k) ds)) \<subseteq> distance ` set ds"
    by (rule join_images_distances_subset)
  from Cons.prems have le: "\<forall>x\<in>set ds. distance d \<le> distance x" and tl: "sorted_wrt (\<lambda>a b. distance a \<le> distance b) ds"
    by auto
  have IH: "sorted (snd (join_images f imgs (Suc k) ds))" using Cons.IH [OF tl] .
  show ?case using IH sub le
    by (auto simp: join_images_Cons simp del: join_images.simps(2) split: option.splits)
qed

lemma join_images_member:
  "d \<in> set ds \<Longrightarrow> db_First imgs (imageID d) = Some img \<Longrightarrow> \<forall>j. \<not> f j \<Longrightarrow>
   (img, distance d) \<in> set (zip (fst (join_images f imgs k ds)) (snd (join_images f imgs k ds)))"
  by (induction ds arbitrary: k)
    (auto simp: join_images_Cons simp del: join_images.simps(2) split: option.splits)

lemma compute_distances_Inr:
  "compute_distances t embs = Inr ds \<Longrightarrow>
   embs = map Some (map the embs) \<and>
   ds = map (\<lambda>emb. \<lparr>imageID = ImageID emb, distance = calculateEuclideanDistance t (Embedding emb)\<rparr>) (map the embs)"
  by (induction t embs arbitrary: ds rule: compute_distances.induct) (auto split: sum.splits)

lemma compute_distances_origin:
  assumes "compute_distances t (parse_embeddings U rows) = Inr ds" and "d \<in> set ds"
  shows "\<exists>temp\<in>set rows. \<exists>v. U (temp_Embedding temp) = Some v \<and> imageID d = temp_ImageID temp \<and>
           distance d = calculateEuclideanDistance t v"
  using assms
proof (induction rows arbitrary: ds)
  case Nil
  then show ?case by (simp add: parse_embeddings_def)
next
  case (Cons r rows)
  then show ?case
    by (auto simp: parse_embeddings_def split: option.splits sum.splits)
qed

lemma compute_distances_covers:
  assumes "compute_distances t (parse_embeddings U rows) = Inr ds"
    and "temp \<in> set rows" and "U (temp_Embedding temp) = Some v"
  shows "\<lparr>imageID = temp_ImageID temp, distance = calculateEuclideanDistance t v\<rparr> \<in> set ds"
  using assms
proof (induction rows arbitrary: ds)
  case Nil
  then show ?case by simp
next
  case (Cons r rows)
  then show ?case
    by (auto simp: parse_embeddings_def split: option.splits sum.splits)
qed

lemma compute_distances_length:
  "compute_distances t embs = Inr ds \<Longrightarrow> length ds = length embs"
  by (induction t embs arbitrary: ds rule: compute_distances.induct) (auto split: sum.splits)

lemma compute_distances_corrupt:
  "temp \<in> set rows \<Longrightarrow> U (temp_Embedding temp) = None \<Longrightarrow>
   compute_distances t (parse_embeddings U rows) = Inl NilPointerDereference"
  by (rule compute_distances_nil) (force simp: parse_embeddings_def)

lemma sort_Slice_set: "sort_Slice lessf xs ys \<Longrightarrow> set ys = set xs"
  by (auto simp: sort_Slice_def dest: mset_eq_setD)

lemma sort_Slice_length: "sort_Slice lessf xs ys \<Longrightarrow> length ys = length xs"
  by (auto simp: sort_Slice_def dest: mset_eq_length)

lemma sort_Slice_ascending:
  "sort_Slice less_distance xs ys \<Longrightarrow> sorted_wrt (\<lambda>a b. distance a \<le> distance b) ys"
  by (simp add: sort_Slice_def less_distance_def not_less)

lemma truncate_distances_Inr:
  "truncate_distances limit ds = Inr kept \<Longrightarrow>
   (\<exists>n. kept = take n ds) \<and> (int (length ds) \<le> limit \<longrightarrow> kept = ds) \<and> (0 \<le> limit \<longrightarrow> int (length kept) \<le> limit)"
  by (auto simp: truncate_distances_def split: if_splits intro: exI [of _ "length ds"])

lemma foldl_add_upt:
  "foldl (\<lambda>s i. s + g i) a [0..<n] = a + (\<Sum>i<n. (g i :: real))"
  by (induction n) (simp_all add: add.assoc)

text \<open>
  The model's distance on vectors of three components and of one. The theorems below use
  these at components that \<open>float32\<close> arithmetic computes exactly (and at [10,10,10], where
  only the order of the distances matters).
\<close>

lemma calculateEuclideanDistance_3:
  "calculateEuclideanDistance [a, b, c] [x, y, z] =
     sqrt ((a - x) * (a - x) + (b - y) * (b - y) + (c - z) * (c - z))"
  by (simp add: calculateEuclideanDistance_def foldl_add_upt lessThan_Suc eval_nat_numeral add.commute add.left_commute)

lemma calculateEuclideanDistance_1: "calculateEuclideanDistance [a] [x] = \<bar>a - x\<bar>"
  by (simp add: calculateEuclideanDistance_def)

lemma SearchSimilarImages_I:
  "\<not> fe \<Longrightarrow> compute_distances t (parse_embeddings U (image_embeddings db)) = Inr ds \<Longrightarrow>
   sort_Slice less_distance ds srt \<Longrightarrow> truncate_distances limit srt = Inr kept \<Longrightarrow>
   join_images fi (images db) 0 kept = r \<Longrightarrow>
   SearchSimilarImages U db fe fi t limit (Inr r)"
  by (auto simp: SearchSimilarImages_def intro!: exI [of _ srt])

lemma SearchSimilarImages_Inr_D:
  assumes "SearchSimilarImages U db fe fi t limit (Inr r)"
  shows "\<exists>ds srt kept. \<not> fe \<and>
      compute_distances t (parse_embeddings U (image_embeddings db)) = Inr ds \<and>
      sort_Slice less_distance ds srt \<and> truncate_distances limit srt = Inr kept \<and>
      r = join_images fi (images db) 0 kept"
proof -
  from assms have nfe: "\<not> fe"
    by (auto simp: SearchSimilarImages_def split: if_splits)
  from assms nfe obtain ds where
    ds: "compute_distances t (parse_embeddings U (image_embeddings db)) = Inr ds"
    by (cases "compute_distances t (parse_embeddings U (image_embeddings db))")
       (auto simp: SearchSimilarImages_def)
  from assms nfe ds obtain srt where
    srt: "sort_Slice less_distance ds srt" and
    out: "Inr r = (case truncate_distances limit srt of
                      Inl e \<Rightarrow> Inl e
                    | Inr kept \<Rightarrow> Inr (join_images fi (images db) 0 kept))"
    by (auto simp: SearchSimilarImages_def)
  from out obtain kept where
    "truncate_distances limit srt = Inr kept" "r = join_images fi (images db) 0 kept"
    by (cases "truncate_distances limit srt") auto
  with nfe ds srt show ?thesis by blast
qed


lemma db_First_abc:
  "db_First [img_a, img_b, img_c] 11 = Some img_a"
  "db_First [img_a, img_b, img_c] 12 = Some img_b"
  "db_First [img_a, img_b, img_c] 13 = Some img_c"
  by (simp_all add: db_First_def img_a_def img_b_def img_c_def)

lemma search_abc_origin:
  "SearchSimilarImages json_example db_abc False no_err [0, 0, 0] 2 (Inr ([img_a, img_b], [0, 1]))"
proof (rule SearchSimilarImages_I)
  show "\<not> False" by simp
  show "compute_distances [0, 0, 0] (parse_embeddings json_example (image_embeddings db_abc)) =
          Inr [\<lparr>imageID = 11, distance = 0\<rparr>, \<lparr>imageID = 12, distance = 1\<rparr>,
               \<lparr>imageID = 13, distance = sqrt 300\<rparr>]"
    by (simp add: db_abc_def parse_embeddings_def json_example_def calculateEuclideanDistance_3)
  show "sort_Slice less_distance
          [\<lparr>imageID = 11, distance = 0\<rparr>, \<lparr>imageID = 12, distance = 1\<rparr>,
           \<lparr>imageID = 13, distance = sqrt 300\<rparr>]
          [\<lparr>imageID = 11, distance = 0\<rparr>, \<lparr>imageID = 12, distance = 1\<rparr>,
           \<lparr>imageID = 13, distance = sqrt 300\<rparr>]"
    by (simp add: sort_Slice_def less_distance_def)
  show "truncate_distances 2
          [\<lparr>imageID = 11, distance = 0\<rparr>, \<lparr>imageID = 12, distance = 1\<rparr>,
           \<lparr>imageID = 13, distance = sqrt 300\<rparr>] =
        Inr [\<lparr>imageID = 11, distance = 0\<rparr>, \<lparr>imageID = 12, distance = 1\<rparr>]"
    by (simp add: truncate_distances_def)
  show "join_images no_err (images db_abc) 0
          [\<lparr>imageID = 11, distance = 0\<rparr>, \<lparr>imageID = 12, distance = 1\<rparr>] =
        ([img_a, img_b], [0, 1])"
    by (simp add: db_abc_def no_err_def db_First_abc)
qed

subsection \<open>Pairing of the two result slices\<close>

text \<open>
  Claim C10. For every search that returns, the image slice and the distance slice have
  the same length, and the distance at each index is the one computed between the query
  and a stored vector of the image at that index.
\<close>

theorem search_results_paired:
  assumes "SearchSimilarImages json_Unmarshal db find_err first_err targetEmbedding limit
             (Inr (imgs, dists))"
  shows "length imgs = length dists \<and>
         (\<forall>i<length imgs. \<exists>temp\<in>set (image_embeddings db). \<exists>v.
             temp_ImageID temp = ID (imgs ! i) \<and>
             json_Unmarshal (temp_Embedding temp) = Some v \<and>
             dists ! i = calculateEuclideanDistance targetEmbedding v)"
proof -
  from SearchSimilarImages_Inr_D [OF assms] obtain ds srt kept where
    ds: "compute_distances targetEmbedding
           (parse_embeddings json_Unmarshal (image_embeddings db)) = Inr ds" and
    srt: "sort_Slice less_distance ds srt" and
    kept: "truncate_distances limit srt = Inr kept" and
    r: "(imgs, dists) = join_images first_err (images db) 0 kept"
    by blast
  from r have imgs: "imgs = fst (join_images first_err (images db) 0 kept)"
    and dists: "dists = snd (join_images first_err (images db) 0 kept)"
    by (metis fst_conv, metis snd_conv)
  have len: "length imgs = length dists"
    unfolding imgs dists by (rule join_images_length)
  have sub: "set kept \<subseteq> set ds"
    using truncate_distances_Inr [OF kept] sort_Slice_set [OF srt] by (auto dest: in_set_takeD)
  have pairs: "list_all2 (\<lambda>img r. \<exists>d\<in>set kept. ID img = imageID d \<and> img \<in> set (images db) \<and>
                  r = distance d) imgs dists"
    unfolding imgs dists by (rule join_images_paired)
  have "\<exists>temp\<in>set (image_embeddings db). \<exists>v.
             temp_ImageID temp = ID (imgs ! i) \<and>
             json_Unmarshal (temp_Embedding temp) = Some v \<and>
             dists ! i = calculateEuclideanDistance targetEmbedding v" if i: "i < length imgs" for i
  proof -
    from list_all2_nthD [OF pairs i] obtain d where
      d: "d \<in> set kept" "ID (imgs ! i) = imageID d" "dists ! i = distance d"
      by blast
    from d(1) sub have "d \<in> set ds" by blast
    from compute_distances_origin [OF ds this] d(2,3) show ?thesis by fastforce
  qed
  with len show ?thesis by blast
qed

text \<open>The pairing at the example collection, for the second result.\<close>

theorem search_results_paired_witness:
  "SearchSimilarImages json_example db_abc False no_err [0, 0, 0] 2 (Inr ([img_a, img_b], [0, 1])) \<and>
   length [img_a, img_b] = length [0, 1 :: float32] \<and>
   (\<exists>temp\<in>set (image_embeddings db_abc). \<exists>v.
       temp_ImageID temp = ID img_b \<and> json_example (temp_Embedding temp) = Some v \<and>
       1 = calculateEuclideanDistance [0, 0, 0] v)"
proof -
  note h = search_abc_origin
  from search_results_paired [OF h] have
    "\<forall>i<length [img_a, img_b]. \<exists>temp\<in>set (image_embeddings db_abc). \<exists>v.
        temp_ImageID temp = ID ([img_a, img_b] ! i) \<and>
        json_example (temp_Embedding temp) = Some v \<and>
        [0, 1 :: float32] ! i = calculateEuclideanDistance [0, 0, 0] v"
    by blast
  from this [rule_format, of 1] have "\<exists>temp\<in>set (image_embeddings db_abc). \<exists>v.
        temp_ImageID temp = ID img_b \<and>
        json_example (temp_Embedding temp) = Some v \<and>
        1 = calculateEuclideanDistance [0, 0, 0] v"
    by simp
  with h show ?thesis by simp
qed

subsection \<open>Order of the results\<close>

text \<open>
  Claim C5, amended. The returned distances are in ascending order, for every outcome
  that \<open>sort.Slice\<close> allows. The claim's second half, that entries of equal distance
  keep their stored order, does not hold of \<open>sort.Slice\<close>, as the closed theorem on
  thirteen rows below shows.
\<close>

theorem search_sorted_by_distance:
  assumes "SearchSimilarImages json_Unmarshal db find_err first_err targetEmbedding limit
             (Inr (imgs, dists))"
  shows "sorted dists"
proof -
  from SearchSimilarImages_Inr_D [OF assms] obtain ds srt kept where
    srt: "sort_Slice less_distance ds srt" and
    kept: "truncate_distances limit srt = Inr kept" and
    r: "(imgs, dists) = join_images first_err (images db) 0 kept"
    by blast
  from truncate_distances_Inr [OF kept] obtain n where n: "kept = take n srt" by blast
  have "sorted_wrt (\<lambda>a b. distance a \<le> distance b) kept"
    unfolding n by (rule sorted_wrt_take [OF sort_Slice_ascending [OF srt]])
  then have "sorted (snd (join_images first_err (images db) 0 kept))"
    by (rule join_images_sorted)
  with r show ?thesis by (metis snd_conv)
qed

lemma search_ties_in_order:
  "SearchSimilarImages json_example db_ties False no_err [1, 0, 0] 10 (Inr ([img_a, img_b], [0, 0]))"
proof (rule SearchSimilarImages_I)
  show "\<not> False" by simp
  show "compute_distances [1, 0, 0] (parse_embeddings json_example (image_embeddings db_ties)) =
          Inr [\<lparr>imageID = 11, distance = 0\<rparr>, \<lparr>imageID = 12, distance = 0\<rparr>]"
    by (simp add: db_ties_def parse_embeddings_def json_example_def calculateEuclideanDistance_3)
  show "sort_Slice less_distance
          [\<lparr>imageID = 11, distance = 0\<rparr>, \<lparr>imageID = 12, distance = 0\<rparr>]
          [\<lparr>imageID = 11, distance = 0\<rparr>, \<lparr>imageID = 12, distance = 0\<rparr>]"
    by (simp add: sort_Slice_def less_distance_def)
  show "truncate_distances 10 [\<lparr>imageID = 11, distance = 0\<rparr>, \<lparr>imageID = 12, distance = 0\<rparr>] =
        Inr [\<lparr>imageID = 11, distance = 0\<rparr>, \<lparr>imageID = 12, distance = 0\<rparr>]"
    by (simp add: truncate_distances_def)
  show "join_images no_err (images db_ties) 0
          [\<lparr>imageID = 11, distance = 0\<rparr>, \<lparr>imageID = 12, distance = 0\<rparr>] =
        ([img_a, img_b], [0, 0])"
    by (simp add: db_ties_def no_err_def db_First_def img_a_def img_b_def)
qed

lemma search_thirteen:
  "SearchSimilarImages json_levels db_thirteen False no_err [0] 10
     (Inr (map numbered_image [3, 4, 5, 6, 7, 2, 1, 8, 9, 10],
           [10, 20, 30, 40, 45, 50, 50, 60, 70, 80]))"
proof (rule SearchSimilarImages_I)
  let ?d = "\<lambda>n v. \<lparr>imageID = n, distance = v\<rparr>"
  show "\<not> False" by simp
  show "compute_distances [0] (parse_embeddings json_levels (image_embeddings db_thirteen)) =
          Inr [?d 1 50, ?d 2 50, ?d 3 10, ?d 4 20, ?d 5 30, ?d 6 40, ?d 7 45, ?d 8 60, ?d 9 70,
               ?d 10 80, ?d 11 90, ?d 12 100, ?d 13 110]"
    by (simp add: db_thirteen_def level_row_def parse_embeddings_def json_levels_def
        calculateEuclideanDistance_1)
  show "sort_Slice less_distance
          [?d 1 50, ?d 2 50, ?d 3 10, ?d 4 20, ?d 5 30, ?d 6 40, ?d 7 45, ?d 8 60, ?d 9 70,
           ?d 10 80, ?d 11 90, ?d 12 100, ?d 13 110]
          [?d 3 10, ?d 4 20, ?d 5 30, ?d 6 40, ?d 7 45, ?d 2 50, ?d 1 50, ?d 8 60, ?d 9 70,
           ?d 10 80, ?d 11 90, ?d 12 100, ?d 13 110]"
    by (simp add: sort_Slice_def less_distance_def add_mset_commute)
  show "truncate_distances 10
          [?d 3 10, ?d 4 20, ?d 5 30, ?d 6 40, ?d 7 45, ?d 2 50, ?d 1 50, ?d 8 60, ?d 9 70,
           ?d 10 80, ?d 11 90, ?d 12 100, ?d 13 110] =
        Inr [?d 3 10, ?d 4 20, ?d 5 30, ?d 6 40, ?d 7 45, ?d 2 50, ?d 1 50, ?d 8 60, ?d 9 70,
             ?d 10 80]"
    by (simp add: truncate_distances_def)
  show "join_images no_err (images db_thirteen) 0
          [?d 3 10, ?d 4 20, ?d 5 30, ?d 6 40, ?d 7 45, ?d 2 50, ?d 1 50, ?d 8 60, ?d 9 70,
           ?d 10 80] =
        (map numbered_image [3, 4, 5, 6, 7, 2, 1, 8, 9, 10],
         [10, 20, 30, 40, 45, 50, 50, 60, 70, 80])"
    by (simp add: db_thirteen_def no_err_def db_First_def numbered_image_def)
qed

lemma search_mismatch_kept:
  "SearchSimilarImages json_example db_mismatch False no_err [0, 0, 0, 0, 0] 10
     (Inr ([img_a], [MaxFloat32]))"
proof (rule SearchSimilarImages_I)
  show "\<not> False" by simp
  show "compute_distances [0, 0, 0, 0, 0]
          (parse_embeddings json_example (image_embeddings db_mismatch)) =
          Inr [\<lparr>imageID = 11, distance = MaxFloat32\<rparr>]"
    by (simp add: db_mismatch_def parse_embeddings_def json_example_def
        calculateEuclideanDistance_def)
  show "sort_Slice less_distance [\<lparr>imageID = 11, distance = MaxFloat32\<rparr>]
          [\<lparr>imageID = 11, distance = MaxFloat32\<rparr>]"
    by (simp add: sort_Slice_def)
  show "truncate_distances 10 [\<lparr>imageID = 11, distance = MaxFloat32\<rparr>] =
        Inr [\<lparr>imageID = 11, distance = MaxFloat32\<rparr>]"
    by (simp add: truncate_distances_def)
  show "join_images no_err (images db_mismatch) 0 [\<lparr>imageID = 11, distance = MaxFloat32\<rparr>] =
        ([img_a], [MaxFloat32])"
    by (simp add: db_mismatch_def no_err_def db_First_def img_a_def)
qed


text \<open>Two tied rows, returned in their stored order.\<close>

theorem search_sorted_by_distance_witness:
  "SearchSimilarImages json_example db_ties False no_err [1, 0, 0] 10
     (Inr ([img_a, img_b], [0, 0])) \<and> sorted [0, 0 :: float32]"
  using search_sorted_by_distance [OF search_ties_in_order] search_ties_in_order by simp

text \<open>
  Thirteen rows, stored in the order of their images 1 to 13, the first two at the same
  distance 50 from the query. The outcome that lists image 2 before image 1 satisfies the
  contract of \<open>sort.Slice\<close>; it is the order that a quicksort partition around the middle
  row yields, which moves the first row behind the second.
\<close>

theorem search_ties_not_in_insertion_order:
  "map temp_ImageID (image_embeddings db_thirteen) = [1, 2, 3, 4, 5, 6, 7, 8, 9, 10, 11, 12, 13] \<and>
   json_levels (temp_Embedding (image_embeddings db_thirteen ! 0)) = Some [50] \<and>
   json_levels (temp_Embedding (image_embeddings db_thirteen ! 1)) = Some [50] \<and>
   calculateEuclideanDistance [0] [50] = 50 \<and>
   SearchSimilarImages json_levels db_thirteen False no_err [0] 10
     (Inr (map numbered_image [3, 4, 5, 6, 7, 2, 1, 8, 9, 10],
           [10, 20, 30, 40, 45, 50, 50, 60, 70, 80]))"
  using search_thirteen
  by (simp add: db_thirteen_def level_row_def json_levels_def calculateEuclideanDistance_1)

subsection \<open>Vectors whose length differs from the query's\<close>

text \<open>
  Claim C1, amended. A stored vector whose length differs from the query's is given the
  distance \<open>MaxFloat32\<close> and ranked like any other entry: when the limit does not cut the
  list, the join finds its image and no lookup fails, the image is returned, paired with
  \<open>MaxFloat32\<close>.
\<close>

theorem search_keeps_mismatched_length:
  assumes out: "SearchSimilarImages json_Unmarshal db find_err first_err targetEmbedding limit
             (Inr (imgs, dists))"
    and row: "temp \<in> set (image_embeddings db)"
    and parsed: "json_Unmarshal (temp_Embedding temp) = Some v"
    and mismatch: "length v \<noteq> length targetEmbedding"
    and img: "db_First (images db) (temp_ImageID temp) = Some img"
    and no_fault: "\<forall>k. \<not> first_err k"
    and fits: "int (length (image_embeddings db)) \<le> limit"
  shows "(img, MaxFloat32) \<in> set (zip imgs dists)"
proof -
  from SearchSimilarImages_Inr_D [OF out] obtain ds srt kept where
    ds: "compute_distances targetEmbedding
           (parse_embeddings json_Unmarshal (image_embeddings db)) = Inr ds" and
    srt: "sort_Slice less_distance ds srt" and
    kept: "truncate_distances limit srt = Inr kept" and
    r: "(imgs, dists) = join_images first_err (images db) 0 kept"
    by blast
  let ?d = "\<lparr>imageID = temp_ImageID temp,
             distance = calculateEuclideanDistance targetEmbedding v\<rparr>"
  have dist: "distance ?d = MaxFloat32"
    using mismatch by (simp add: calculateEuclideanDistance_def)
  have "?d \<in> set ds" by (rule compute_distances_covers [OF ds row parsed])
  then have in_srt: "?d \<in> set srt" using sort_Slice_set [OF srt] by simp
  have "length srt = length (image_embeddings db)"
    using sort_Slice_length [OF srt] compute_distances_length [OF ds]
    by (simp add: parse_embeddings_def)
  with fits truncate_distances_Inr [OF kept] have "kept = srt" by simp
  with in_srt have "?d \<in> set kept" by simp
  from join_images_member [OF this _ no_fault, of "images db" img 0] img
  have "(img, distance ?d) \<in> set (zip (fst (join_images first_err (images db) 0 kept))
                                      (snd (join_images first_err (images db) 0 kept)))"
    by simp
  with r [symmetric] dist show ?thesis by simp
qed

text \<open>One stored vector of length 3, a query of length 5.\<close>

theorem search_keeps_mismatched_length_witness:
  "SearchSimilarImages json_example db_mismatch False no_err [0, 0, 0, 0, 0] 10
     (Inr ([img_a], [MaxFloat32])) \<and>
   json_example ''[1,2,3]'' = Some [1, 2, 3] \<and>
   length [1, 2, 3 :: float32] \<noteq> length [0, 0, 0, 0, 0 :: float32] \<and>
   (img_a, MaxFloat32) \<in> set (zip [img_a] [MaxFloat32])"
proof -
  have "(img_a, MaxFloat32) \<in> set (zip [img_a] [MaxFloat32])"
    by (rule search_keeps_mismatched_length [OF search_mismatch_kept,
          of "\<lparr>temp_ID = 21, temp_ImageID = 11, temp_Embedding = ''[1,2,3]''\<rparr>" "[1, 2, 3]"])
       (simp_all add: db_mismatch_def json_example_def db_First_def img_a_def no_err_def)
  with search_mismatch_kept show ?thesis by (simp add: json_example_def)
qed

text \<open>
  A stored vector of length 3 and a query of length 5: the entry is returned, with distance
  \<open>MaxFloat32\<close>.
\<close>

theorem search_mismatched_length_not_omitted:
  "json_example ''[1,2,3]'' = Some [1, 2, 3] \<and>
   length [1, 2, 3 :: float32] = 3 \<and> length [0, 0, 0, 0, 0 :: float32] = 5 \<and>
   image_embeddings db_mismatch =
     [\<lparr>temp_ID = 21, temp_ImageID = ID img_a, temp_Embedding = ''[1,2,3]''\<rparr>] \<and>
   SearchSimilarImages json_example db_mismatch False no_err [0, 0, 0, 0, 0] 10
     (Inr ([img_a], [MaxFloat32]))"
  using search_mismatch_kept by (simp add: json_example_def db_mismatch_def img_a_def)

subsection \<open>Rows whose blob does not parse\<close>

text \<open>
  Claim C2: what the code does. When the scan succeeds and some row's blob is rejected by
  \<open>json.Unmarshal\<close>, the slot of that row stays \<open>nil\<close> and the second loop dereferences it:
  the call panics, whatever the other rows hold. The row is not skipped.
\<close>

theorem search_corrupt_blob_panics:
  assumes "temp \<in> set (image_embeddings db)"
    and "json_Unmarshal (temp_Embedding temp) = None"
  shows "SearchSimilarImages json_Unmarshal db False first_err targetEmbedding limit out \<longleftrightarrow>
         out = Inl NilPointerDereference"
proof -
  have "compute_distances targetEmbedding
          (parse_embeddings json_Unmarshal (image_embeddings db)) = Inl NilPointerDereference"
    using assms by (rule compute_distances_corrupt)
  then show ?thesis by (simp add: SearchSimilarImages_def)
qed

text \<open>
  Two rows, the second with a truncated blob: the call panics, and the first row, whose blob
  parses, is not returned.
\<close>

theorem search_corrupt_blob_panics_witness:
  "json_example ''[1,0'' = None \<and>
   SearchSimilarImages json_example db_corrupt False no_err [0, 0, 0] 10
     (Inl NilPointerDereference) \<and>
   \<not> SearchSimilarImages json_example db_corrupt False no_err [0, 0, 0] 10 (Inr ([img_a], [0]))"
proof -
  have row: "\<lparr>temp_ID = 22, temp_ImageID = 12, temp_Embedding = ''[1,0''\<rparr>
               \<in> set (image_embeddings db_corrupt)"
    by (simp add: db_corrupt_def)
  have bad: "json_example (temp_Embedding \<lparr>temp_ID = 22, temp_ImageID = 12, temp_Embedding = ''[1,0''\<rparr>) = None"
    by (simp add: json_example_def)
  have "SearchSimilarImages json_example db_corrupt False no_err [0, 0, 0] 10 out \<longleftrightarrow>
        out = Inl NilPointerDereference" for out
    using row bad by (rule search_corrupt_blob_panics)
  then show ?thesis by (simp add: json_example_def)
qed

subsection \<open>Empty collection\<close>




subsection \<open>The ordering example\<close>








section \<open>Facts about the example data\<close>

lemma no_faults_simps:
  "fail_read no_faults = False" "fail_seek no_faults = False"
  "fail_create_file no_faults = False" "fail_stat no_faults = False"
  "fail_create_image no_faults = False" "fail_create_embedding no_faults = False"
  "fail_get no_faults = False" "fail_remove no_faults = False"
  "fail_delete_embedding no_faults = False" "fail_delete_image no_faults = False"
  "fail_commit no_faults = False"
  by (simp_all add: no_faults_def)

lemma world_a_simps:
  "images (repo world_a) = [img_a]"
  "image_embeddings (repo world_a) =
     [\<lparr>temp_ID = 21, temp_ImageID = 11, temp_Embedding = ''[1,2,3]''\<rparr>]"
  "disk world_a = (\<lambda>name. if name = ''images/a1.png'' then Some ''PNGDATA'' else None)"
  by (simp_all add: world_a_def db_mismatch_def)

section \<open>Properties of paging\<close>

lemma int64_id: "- (2 ^ 63) \<le> x \<Longrightarrow> x < 2 ^ 63 \<Longrightarrow> int64 x = x"
  by (simp add: int64_def)

text \<open>
  Claim C7, amended. When the count and the page query succeed: a page below 1 is replaced
  by 1; a page size below 1 or above 100 is replaced by the default 10 (it is not cut down to
  the maximum 100); the records returned are the page-size many rows from offset
  (page - 1) * pageSize on, as long as that product fits a 64-bit integer; and the total is
  the number of all Image rows, whatever the page and the page size.
\<close>

theorem ListImages_paging:
  assumes ok: "\<not> count_err" "\<not> find_err"
    and page: "page < 2 ^ 63"
    and fits: "(max 1 page - 1) * (if pageSize < 1 \<or> pageSize > 100 then 10 else pageSize) < 2 ^ 63"
  shows "service_ListImages db count_err find_err page pageSize =
           Inr (take (nat (if pageSize < 1 \<or> pageSize > 100 then 10 else pageSize))
                  (drop (nat ((max 1 page - 1) * (if pageSize < 1 \<or> pageSize > 100 then 10 else pageSize)))
                     (images db)),
                int (length (images db)))"
proof -
  define p where "p = max 1 page"
  define ps where "ps = (if pageSize < 1 \<or> pageSize > 100 then 10 else pageSize)"
  have p1: "1 \<le> p" "p < 2 ^ 63" using page by (simp_all add: p_def)
  have ps1: "1 \<le> ps" "ps \<le> 100" by (simp_all add: ps_def)
  have a: "int64 (p - 1) = p - 1" using p1 by (intro int64_id) simp_all
  have nonneg: "0 \<le> (p - 1) * ps" using p1 ps1 by simp
  have fits': "(p - 1) * ps < 2 ^ 63" using fits by (simp only: p_def ps_def)
  have b: "int64 ((p - 1) * ps) = (p - 1) * ps"
  proof (rule int64_id)
    have "- (2 ^ 63) \<le> (0::int)" by simp
    then show "- (2 ^ 63) \<le> (p - 1) * ps" using nonneg by (rule order_trans)
    show "(p - 1) * ps < 2 ^ 63" by (rule fits')
  qed
  have pg: "(if page < 1 then 1 else page) = p" by (simp add: p_def max_def)
  show ?thesis
    unfolding service_ListImages_def repository_ListImages_def Let_def pg
      p_def [symmetric] ps_def [symmetric]
    using ok ps1 nonneg by (simp add: a b db_Offset_Limit_def)
qed

text \<open>Twelve images: page 2 of size 5, and page 0 (read as page 1) of size 5.\<close>

theorem ListImages_paging_witness:
  "service_ListImages db_twelve False False 2 5 =
     Inr (map numbered_image [6, 7, 8, 9, 10], 12) \<and>
   service_ListImages db_twelve False False 0 5 =
     Inr (map numbered_image [1, 2, 3, 4, 5], 12)"
  using ListImages_paging [of False False 2 5 db_twelve]
    ListImages_paging [of False False 0 5 db_twelve]
  by (simp add: db_twelve_def)

text \<open>
  Twelve images and a requested page size of 150: ten rows come back, where a page size of
  100 returns all twelve. The request is answered with the default, not with the maximum.
\<close>

theorem ListImages_large_pageSize_not_clamped:
  "service_ListImages db_twelve False False 1 150 =
     Inr (map numbered_image [1, 2, 3, 4, 5, 6, 7, 8, 9, 10], 12) \<and>
   service_ListImages db_twelve False False 1 100 =
     Inr (map numbered_image [1, 2, 3, 4, 5, 6, 7, 8, 9, 10, 11, 12], 12)"
  by (simp add: service_ListImages_def repository_ListImages_def db_Offset_Limit_def
      int64_def db_twelve_def)

text \<open>
  Beyond that range the offset wraps: page 2^60 + 1 with page size 16 has the offset 2^64,
  which is 0 in 64 bits, and the first page is returned.
\<close>

lemma ListImages_offset_wraps:
  "service_ListImages db_twelve False False (2 ^ 60 + 1) 16 =
     service_ListImages db_twelve False False 1 16"
  by (simp add: service_ListImages_def repository_ListImages_def db_Offset_Limit_def int64_def)

section \<open>Properties of delete\<close>

lemma repository_DeleteImage_cases:
  "repository_DeleteImage f db i =
     (if fail_delete_embedding f \<or> fail_delete_image f \<or> fail_commit f then (Inl DBError, db)
      else (Inr (), \<lparr>images = filter (\<lambda>img. ID img \<noteq> i) (images db),
                     image_embeddings = filter (\<lambda>e. temp_ImageID e \<noteq> i) (image_embeddings db)\<rparr>))"
  by (simp add: repository_DeleteImage_def Transaction_def Let_def)

lemma db_First_filter_None: "db_First (filter (\<lambda>img. ID img \<noteq> i) imgs) i = None"
  by (simp add: db_First_def find_None_iff)

text \<open>
  Claim C3, amended. For a delete of an existing image: when it succeeds, the file, the
  Image row and every Embedding row of the image are gone. When it fails, both tables are
  as before (the two record deletions are one transaction); the file is as before when the
  failure is the removal of the file itself, and is already removed when the failure is in
  the record transaction, which runs after the removal.
\<close>

theorem DeleteImage_outcomes:
  assumes "repository_GetImageByID (fail_get f) (repo w) i = Inr img"
  shows "case service_DeleteImage f w i of
           (Inr u, w') \<Rightarrow>
             disk w' (FilePath img) = None \<and>
             db_First (images (repo w')) i = None \<and>
             filter (\<lambda>e. temp_ImageID e = i) (image_embeddings (repo w')) = []
         | (Inl e, w') \<Rightarrow>
             repo w' = repo w \<and>
             (if e = RemoveError then disk w' = disk w
              else disk w' = (disk w)(FilePath img := None))"
  using assms
  by (simp add: service_DeleteImage_def os_Remove_def repository_DeleteImage_cases
      db_First_filter_None filter_empty_conv)

text \<open>The delete that succeeds, at the example world.\<close>

theorem DeleteImage_outcomes_witness:
  "service_GetImage no_faults world_a 11 = Inr img_a \<and>
   fst (service_DeleteImage no_faults world_a 11) = Inr () \<and>
   disk (snd (service_DeleteImage no_faults world_a 11)) ''images/a1.png'' = None \<and>
   images (repo (snd (service_DeleteImage no_faults world_a 11))) = [] \<and>
   image_embeddings (repo (snd (service_DeleteImage no_faults world_a 11))) = []"
proof -
  have g': "repository_GetImageByID False (repo world_a) 11 = Inr img_a"
    by (simp add: repository_GetImageByID_def world_a_simps db_First_def img_a_def)
  then have g: "repository_GetImageByID (fail_get no_faults) (repo world_a) 11 = Inr img_a"
    by (simp add: no_faults_simps)
  have ok: "fst (service_DeleteImage no_faults world_a 11) = Inr ()"
    by (simp add: service_DeleteImage_def g' os_Remove_def repository_DeleteImage_cases
        no_faults_simps world_a_simps img_a_def)
  obtain w' where w': "service_DeleteImage no_faults world_a 11 = (Inr (), w')"
    using ok by (cases "service_DeleteImage no_faults world_a 11") auto
  from DeleteImage_outcomes [OF g] w' have
    "disk w' (FilePath img_a) = None" "db_First (images (repo w')) 11 = None"
    "filter (\<lambda>e. temp_ImageID e = 11) (image_embeddings (repo w')) = []"
    by simp_all
  moreover have "images (repo w') = []" "image_embeddings (repo w') = []"
    using w'
    by (auto simp: service_DeleteImage_def g' os_Remove_def repository_DeleteImage_cases
        no_faults_simps world_a_simps img_a_def)
  ultimately show ?thesis
    using g' w' by (simp add: service_GetImage_def no_faults_simps img_a_def)
qed

text \<open>
  The image of the example world exists and its file is on disk. When the commit of the
  record transaction fails, the delete returns the error, both tables are as before, and the
  file is gone.
\<close>

theorem DeleteImage_not_atomic_with_file:
  "service_GetImage no_faults world_a 11 = Inr img_a \<and>
   disk world_a (FilePath img_a) = Some ''PNGDATA'' \<and>
   fst (service_DeleteImage (no_faults\<lparr>fail_commit := True\<rparr>) world_a 11) = Inl DBError \<and>
   disk (snd (service_DeleteImage (no_faults\<lparr>fail_commit := True\<rparr>) world_a 11)) (FilePath img_a) = None \<and>
   repo (snd (service_DeleteImage (no_faults\<lparr>fail_commit := True\<rparr>) world_a 11)) = repo world_a"
  by (simp add: service_GetImage_def service_DeleteImage_def repository_GetImageByID_def
      os_Remove_def repository_DeleteImage_cases no_faults_simps world_a_simps db_First_def
      img_a_def)

section \<open>Properties of ingestion\<close>

lemma db_First_append_fresh:
  "\<not> (\<exists>row\<in>set imgs. ID row = ID img) \<Longrightarrow> db_First (imgs @ [img]) (ID img) = Some img"
  by (induction imgs) (auto simp: db_First_def)

lemma repository_CreateImage_Inr:
  assumes "repository_CreateImage e u db img = (Inr created, db')"
  shows "images db' = images db @ [created] \<and> image_embeddings db' = image_embeddings db \<and>
         \<not> (\<exists>row\<in>set (images db). ID row = ID created) \<and>
         created = (if ID img = 0 then img\<lparr>ID := u\<rparr> else img)"
  using assms by (auto simp: repository_CreateImage_def Let_def split: if_splits)

lemma repository_CreateImage_Inl:
  "repository_CreateImage e u db img = (Inl err, db') \<Longrightarrow> db' = db"
  by (auto simp: repository_CreateImage_def Let_def split: if_splits)

lemma repository_CreateImageEmbedding_Inr:
  "repository_CreateImageEmbedding m e db a b v = (Inr u, db') \<Longrightarrow>
   images db' = images db \<and>
   (\<exists>blob. m v = Some blob \<and>
      image_embeddings db' = image_embeddings db @
        [\<lparr>temp_ID = a, temp_ImageID = b, temp_Embedding = blob\<rparr>])"
  by (auto simp: repository_CreateImageEmbedding_def split: option.splits if_splits)

lemma repository_CreateImageEmbedding_Inl:
  "repository_CreateImageEmbedding m e db a b v = (Inl err, db') \<Longrightarrow> db' = db"
  by (auto simp: repository_CreateImageEmbedding_def split: option.splits if_splits)

lemma persist_upload_Inr:
  assumes "persist_upload c f image_uuid db0 fs filePath record resizedImg = (Inr created, w')"
  shows "\<exists>db db1 u.
           repository_CreateImage (fail_create_image f) image_uuid db0 record = (Inr created, db) \<and>
           repository_CreateImageEmbedding (json_Marshal c) (fail_create_embedding f) db 0
             (ID created) (generateEmbedding c resizedImg) = (Inr u, db1) \<and>
           w' = \<lparr>repo = db1, disk = fs\<rparr>"
  using assms
  by (auto simp: persist_upload_def split: prod.splits sum.splits)

lemma service_UploadImage_Inr:
  assumes "service_UploadImage c f imageDir file_uuid image_uuid w file name = (Inr created, w')"
  shows "\<exists>img format written.
           image_Decode c file = Some (img, format) \<and>
           encode_image c format (resize_Resize c img) = (written, True) \<and>
           persist_upload c f image_uuid (repo w)
             ((disk w)(imageDir @ ''/'' @ uuid_String c file_uuid @ ''.'' @ format \<mapsto> written))
             (imageDir @ ''/'' @ uuid_String c file_uuid @ ''.'' @ format)
             \<lparr>ID = 0, FileName = name,
               FilePath = imageDir @ ''/'' @ uuid_String c file_uuid @ ''.'' @ format,
               Extension = format, Width = Dx c (resize_Resize c img),
               Height = Dy c (resize_Resize c img), Size = int (length written)\<rparr>
             (resize_Resize c img) = (Inr created, w')"
proof -
  from assms obtain img format where dec: "image_Decode c file = Some (img, format)"
    by (cases "image_Decode c file") (auto simp: service_UploadImage_def split: if_splits)
  obtain written encoded where
    enc: "encode_image c format (resize_Resize c img) = (written, encoded)"
    by (cases "encode_image c format (resize_Resize c img)")
  from assms dec enc have encoded: "encoded"
    by (auto simp: service_UploadImage_def Let_def split: if_splits)
  from assms dec enc encoded show ?thesis
    by (auto simp: service_UploadImage_def Let_def split: if_splits)
qed

text \<open>
  Claim C9. After an ingestion that succeeds, fetching by the returned identity (the fetch
  itself not failing) yields the returned record, and its width and height are those of the
  resized image and its size is the length of the bytes written to the file at its path.
\<close>

theorem UploadImage_roundtrip:
  assumes up: "service_UploadImage c f imageDir file_uuid image_uuid w file name = (Inr created, w')"
    and get: "\<not> fail_get f'"
  shows "service_GetImage f' w' (ID created) = Inr created \<and>
         (\<exists>img format written.
            image_Decode c file = Some (img, format) \<and>
            encode_image c format (resize_Resize c img) = (written, True) \<and>
            disk w' (FilePath created) = Some written \<and>
            Width created = Dx c (resize_Resize c img) \<and>
            Height created = Dy c (resize_Resize c img) \<and>
            Size created = int (length written))"
proof -
  from service_UploadImage_Inr [OF up] obtain img format written where
    dec: "image_Decode c file = Some (img, format)" and
    enc: "encode_image c format (resize_Resize c img) = (written, True)" and
    per: "persist_upload c f image_uuid (repo w)
             ((disk w)(imageDir @ ''/'' @ uuid_String c file_uuid @ ''.'' @ format \<mapsto> written))
             (imageDir @ ''/'' @ uuid_String c file_uuid @ ''.'' @ format)
             \<lparr>ID = 0, FileName = name,
               FilePath = imageDir @ ''/'' @ uuid_String c file_uuid @ ''.'' @ format,
               Extension = format, Width = Dx c (resize_Resize c img),
               Height = Dy c (resize_Resize c img), Size = int (length written)\<rparr>
             (resize_Resize c img) = (Inr created, w')"
    by blast
  let ?path = "imageDir @ ''/'' @ uuid_String c file_uuid @ ''.'' @ format"
  from persist_upload_Inr [OF per] obtain db db1 u where
    cr: "repository_CreateImage (fail_create_image f) image_uuid (repo w)
           \<lparr>ID = 0, FileName = name, FilePath = ?path,
             Extension = format, Width = Dx c (resize_Resize c img),
             Height = Dy c (resize_Resize c img), Size = int (length written)\<rparr> = (Inr created, db)" and
    ce: "repository_CreateImageEmbedding (json_Marshal c) (fail_create_embedding f) db 0
           (ID created) (generateEmbedding c (resize_Resize c img)) = (Inr u, db1)" and
    w': "w' = \<lparr>repo = db1, disk = (disk w)(?path \<mapsto> written)\<rparr>"
    by blast
  from repository_CreateImage_Inr [OF cr] have
    imgs: "images db = images (repo w) @ [created]" and
    fresh: "\<not> (\<exists>row\<in>set (images (repo w)). ID row = ID created)" and
    created: "created = \<lparr>ID = image_uuid, FileName = name, FilePath = ?path,
             Extension = format, Width = Dx c (resize_Resize c img),
             Height = Dy c (resize_Resize c img), Size = int (length written)\<rparr>"
    by auto
  from repository_CreateImageEmbedding_Inr [OF ce] have imgs1: "images db1 = images db" by simp
  have "db_First (images db1) (ID created) = Some created"
    unfolding imgs1 imgs by (rule db_First_append_fresh [OF fresh])
  then have g: "service_GetImage f' w' (ID created) = Inr created"
    using get by (simp add: service_GetImage_def repository_GetImageByID_def w')
  have path: "FilePath created = ?path" and
    dims: "Width created = Dx c (resize_Resize c img)" "Height created = Dy c (resize_Resize c img)"
      "Size created = int (length written)"
    by (simp_all add: created)
  have "disk w' (FilePath created) = Some written" by (simp add: w' path)
  with g dec enc dims show ?thesis by blast
qed

lemma persist_upload_image_failure:
  assumes "repository_CreateImage (fail_create_image f) u db0 record = (Inl e, db)"
    and "\<not> fail_remove f" and "fs filePath \<noteq> None"
  shows "persist_upload c f u db0 fs filePath record resizedImg =
           (Inl e, \<lparr>repo = db0, disk = fs(filePath := None)\<rparr>)"
  using assms repository_CreateImage_Inl [OF assms(1)]
  by (auto simp: persist_upload_def os_Remove_def)

lemma persist_upload_embedding_failure:
  assumes cr: "repository_CreateImage (fail_create_image f) u db0 record = (Inr created, db)"
    and ce: "repository_CreateImageEmbedding (json_Marshal c) (fail_create_embedding f) db 0
               (ID created) (generateEmbedding c resizedImg) = (Inl e, db1)"
    and rb: "\<not> fail_remove f" "\<not> fail_delete_embedding f" "\<not> fail_delete_image f"
      "\<not> fail_commit f"
    and present: "fs filePath \<noteq> None"
  shows "persist_upload c f u db0 fs filePath record resizedImg =
           (Inl e,
            \<lparr>repo = \<lparr>images = images db0,
                      image_embeddings =
                        filter (\<lambda>row. temp_ImageID row \<noteq> ID created) (image_embeddings db0)\<rparr>,
              disk = fs(filePath := None)\<rparr>)"
proof -
  from repository_CreateImage_Inr [OF cr] have
    imgs: "images db = images db0 @ [created]" and
    embs: "image_embeddings db = image_embeddings db0" and
    fresh: "\<not> (\<exists>row\<in>set (images db0). ID row = ID created)"
    by blast+
  from repository_CreateImageEmbedding_Inl [OF ce] have db1: "db1 = db" .
  have kept: "filter (\<lambda>img. ID img \<noteq> ID created) (images db0) = images db0"
    using fresh by (simp add: filter_id_conv)
  show ?thesis
    using rb present
    by (auto simp: persist_upload_def cr ce db1 os_Remove_def repository_DeleteImage_cases
        imgs embs kept)
qed

text \<open>
  Claim C4: what the code does when the encoder fails. The file that \<open>os.Create\<close> made is
  left on disk, holding what the encoder wrote before it failed; the two later failure
  branches remove it (\<open>persist_upload_image_failure\<close>, \<open>persist_upload_embedding_failure\<close>),
  this one returns without doing so.
\<close>

theorem UploadImage_encode_failure_leaves_file:
  assumes "\<not> fail_read f" "\<not> fail_seek f"
    and "image_Decode c file = Some (img, format)"
    and "format = ''jpeg'' \<or> format = ''png''"
    and "\<not> fail_create_file f"
    and "encode_image c format (resize_Resize c img) = (written, False)"
  shows "service_UploadImage c f imageDir file_uuid image_uuid w file name =
           (Inl EncodeError,
            w\<lparr>disk := (disk w)(imageDir @ ''/'' @ uuid_String c file_uuid @ ''.'' @ format \<mapsto> written)\<rparr>)"
  using assms by (auto simp: service_UploadImage_def Let_def)

text \<open>An upload that succeeds, at the example world.\<close>

lemma upload_example:
  "service_UploadImage library_example no_faults ''images'' 7 42 world_a ''PNG 1600x1200'' ''photo.png'' =
     (Inr uploaded_example,
      \<lparr>repo = \<lparr>images = [img_a, uploaded_example],
                image_embeddings =
                  [\<lparr>temp_ID = 21, temp_ImageID = 11, temp_Embedding = ''[1,2,3]''\<rparr>,
                   \<lparr>temp_ID = 0, temp_ImageID = 42, temp_Embedding = ''[0,0,0]''\<rparr>]\<rparr>,
        disk = (disk world_a)(''images/u7.png'' \<mapsto> ''PNGBYTES'')\<rparr>)"
  by (simp add: service_UploadImage_def persist_upload_def library_example_def no_faults_simps
      encode_image_def repository_CreateImage_def repository_CreateImageEmbedding_def
      uploaded_example_def world_a_simps img_a_def Let_def)

theorem UploadImage_roundtrip_witness:
  "fst (service_UploadImage library_example no_faults ''images'' 7 42 world_a ''PNG 1600x1200''
          ''photo.png'') = Inr uploaded_example \<and>
   service_GetImage no_faults
     (snd (service_UploadImage library_example no_faults ''images'' 7 42 world_a ''PNG 1600x1200''
             ''photo.png'')) 42 = Inr uploaded_example \<and>
   Width uploaded_example = 800 \<and> Height uploaded_example = 600 \<and> Size uploaded_example = 8"
proof -
  have "service_GetImage no_faults
     (snd (service_UploadImage library_example no_faults ''images'' 7 42 world_a ''PNG 1600x1200''
             ''photo.png'')) (ID uploaded_example) = Inr uploaded_example"
    using UploadImage_roundtrip [OF upload_example, of no_faults]
    by (simp add: no_faults_simps upload_example)
  then show ?thesis by (simp add: upload_example uploaded_example_def)
qed

text \<open>
  A JPEG of 8 by 700 pixels is resized to 800 by 70000, which the JPEG encoder of the example
  library rejects: the upload fails and the empty file is left behind.
\<close>

theorem UploadImage_encode_failure_leaves_file_witness:
  "fst (service_UploadImage library_example no_faults ''images'' 7 42 world_a ''JPEG 8x700''
          ''tall.jpg'') = Inl EncodeError \<and>
   disk world_a ''images/u7.jpeg'' = None \<and>
   disk (snd (service_UploadImage library_example no_faults ''images'' 7 42 world_a ''JPEG 8x700''
                ''tall.jpg'')) ''images/u7.jpeg'' = Some []"
  using UploadImage_encode_failure_leaves_file
    [of no_faults library_example "''JPEG 8x700''" "(8, 700)" "''jpeg''" "[]" "''images''" 7 42
        world_a "''tall.jpg''"]
  by (simp add: no_faults_simps library_example_def encode_image_def world_a_simps)

end
